theory Spec2Isabelle
  imports Complex_Main
begin

section \<open>Data model of the visibility handler (src/Item/ItemVisibility.ts)\<close>

text \<open>
  JavaScript numbers are idealised as reals; none of the properties below depends on
  rounding. A style declaration is the list of its (property, value) pairs in insertion
  order. A completion callback is an opaque identity: calling it is recorded in the
  trace of the world and has no other effect (a callback does not call back into the
  handler while it runs). What is proved about destroyed handlers assumes nothing about
  how the state was reached, so it also covers the states that a callback calling
  \<open>destroy\<close> in the middle of a burst would leave behind.
\<close>

type_synonym style_decl = "(string \<times> string) list"

type_synonym callback = nat

datatype event = Invoked callback bool | LayoutStopped

datatype handler = FinishShow | FinishHide

datatype error = NoChildElement

record settings =
  itemVisibleClass :: string
  itemHiddenClass :: string
  visibleStyles :: "style_decl option"
  hiddenStyles :: "style_decl option"
  showDuration :: real
  hideDuration :: real
  showEasing :: string
  hideEasing :: string
  animationWindowing :: bool

text \<open>
  The grid fields the handler reads and writes. The fields \<open>dom_*\<close> stand for what a
  fresh measurement of the container would give; they are inputs of the model.
\<close>

record grid =
  grid_settings :: settings
  rect_left :: real
  rect_top :: real
  borderLeft :: real
  borderTop :: real
  itemVisibilityNeedsDimensionRefresh :: bool
  dom_rect_left :: real
  dom_rect_top :: real
  dom_borderLeft :: real
  dom_borderTop :: real

text \<open>The fields of src/Item/Item.ts that the handler reads.\<close>

record item =
  item_id :: nat
  item_isActive :: bool
  item_left :: real
  item_top :: real
  item_width :: real
  item_height :: real
  item_marginLeft :: real
  item_marginTop :: real
  containerDiffX :: real
  containerDiffY :: real
  translateX :: "real option"
  translateY :: "real option"
  dom_translate :: "real \<times> real"

text \<open>
  A running animation of the animator, and the read/write pair registered with the
  scheduler by \<open>_startAnimation\<close>. The pair shares the closure variables
  \<open>currentStyles\<close>, \<open>tX\<close> and \<open>tY\<close>, which start as undefined, 0 and 0.
\<close>

record animation =
  an_from :: style_decl
  an_to :: style_decl
  an_duration :: real
  an_easing :: string
  an_onfinish :: "handler option"

record tick_entry =
  te_toVisible :: bool
  te_targetStyles :: style_decl
  te_duration :: real
  te_easing :: string
  te_onFinish :: "handler option"
  te_readPending :: bool
  te_currentStyles :: "style_decl option"
  te_tX :: real
  te_tY :: real

text \<open>
  Everything outside the handler: the item and its grid, the item element (inline
  display and class list), its first child element (by its inline style, None when the
  element has no child), the item's emitter, the scheduler's visibility registrations
  keyed by item id, the trace of callback invocations, and the viewport.
\<close>

record world =
  item :: item
  grid :: grid
  display :: string
  classes :: "string list"
  child :: "style_decl option"
  emitter :: "string \<Rightarrow> callback list"
  ticker :: "nat \<Rightarrow> tick_entry option"
  trace :: "event list"
  viewport_width :: real
  viewport_height :: real
  VIEWPORT_THRESHOLD :: real

text \<open>The handler itself: the world extended by the fields of class ItemVisibility.\<close>

record vis = world +
  isHidden :: bool
  isHiding :: bool
  isShowing :: bool
  isDestroyed :: bool
  currentStyleProps :: "string list"
  queue :: string
  animator_animation :: "animation option"
  animator_destroyed :: bool

section \<open>Collaborators that are not part of the sources\<close>

text \<open>Modelled from the spec: the class helpers (add/remove a CSS class name).\<close>

definition addClass :: "string \<Rightarrow> string list \<Rightarrow> string list" where
  "addClass c cs = (if c \<in> set cs then cs else cs @ [c])"

definition removeClass :: "string \<Rightarrow> string list \<Rightarrow> string list" where
  "removeClass c cs = removeAll c cs"

text \<open>Modelled from the spec: the style helpers (set a mapping of inline style
  properties; compute the current values of a set of property names).\<close>

fun setProp :: "string \<Rightarrow> string \<Rightarrow> style_decl \<Rightarrow> style_decl" where
  "setProp p v [] = [(p, v)]"
| "setProp p v ((q, w) # s) = (if p = q then (q, v) # s else (q, w) # setProp p v s)"

fun setStyles_util :: "style_decl \<Rightarrow> style_decl \<Rightarrow> style_decl" where
  "setStyles_util [] s = s"
| "setStyles_util ((p, v) # ts) s = setStyles_util ts (setProp p v s)"

definition getStyle :: "style_decl \<Rightarrow> string \<Rightarrow> string" where
  "getStyle s p = (case map_of s p of None \<Rightarrow> [] | Some v \<Rightarrow> v)"

definition getCurrentStyles :: "style_decl \<Rightarrow> style_decl \<Rightarrow> style_decl" where
  "getCurrentStyles s ts = map (\<lambda>(p, _). (p, getStyle s p)) ts"

text \<open>Modelled from the spec: the callback queue (Emitter). \<open>on\<close> appends a listener,
  \<open>burst\<close> clears the key's queue and invokes every listener it held, in order, with the
  same arguments, \<open>clear\<close> drops the listeners without invoking them.\<close>

definition emitter_on :: "string \<Rightarrow> callback \<Rightarrow> 'a world_scheme \<Rightarrow> 'a world_scheme" where
  "emitter_on k c w = w\<lparr>emitter := (emitter w)(k := emitter w k @ [c])\<rparr>"

definition emitter_burst :: "string \<Rightarrow> bool \<Rightarrow> 'a world_scheme \<Rightarrow> 'a world_scheme" where
  "emitter_burst k interrupted w =
     w\<lparr>emitter := (emitter w)(k := []),
       trace := trace w @ map (\<lambda>c. Invoked c interrupted) (emitter w k)\<rparr>"

definition emitter_clear :: "string \<Rightarrow> 'a world_scheme \<Rightarrow> 'a world_scheme" where
  "emitter_clear k w = w\<lparr>emitter := (emitter w)(k := [])\<rparr>"

text \<open>Modelled from the spec: the scheduler's registration of a read/write pair keyed
  by the item's id (a newer registration replaces an older one) and its cancellation.\<close>

definition addVisibilityTick :: "nat \<Rightarrow> tick_entry \<Rightarrow> 'a world_scheme \<Rightarrow> 'a world_scheme" where
  "addVisibilityTick i e w = w\<lparr>ticker := (ticker w)(i := Some e)\<rparr>"

definition cancelVisibilityTick :: "nat \<Rightarrow> 'a world_scheme \<Rightarrow> 'a world_scheme" where
  "cancelVisibilityTick i w = w\<lparr>ticker := (ticker w)(i := None)\<rparr>"

text \<open>Modelled from the spec: the Animator capability (start, stop, a readable handle
  of the running animation whose completion callback can be nulled) and its teardown.\<close>

definition animator_stop :: "'a vis_scheme \<Rightarrow> 'a vis_scheme" where
  "animator_stop v = v\<lparr>animator_animation := None\<rparr>"

definition animator_start ::
  "style_decl \<Rightarrow> style_decl \<Rightarrow> real \<Rightarrow> string \<Rightarrow> handler option \<Rightarrow> 'a vis_scheme \<Rightarrow> 'a vis_scheme" where
  "animator_start cs ts d e h v =
     v\<lparr>animator_animation :=
         Some \<lparr>an_from = cs, an_to = ts, an_duration = d, an_easing = e, an_onfinish = h\<rparr>\<rparr>"

definition animator_destroy :: "'a vis_scheme \<Rightarrow> 'a vis_scheme" where
  "animator_destroy v = v\<lparr>animator_animation := None, animator_destroyed := True\<rparr>"

text \<open>Modelled from the spec: whether a rectangle, widened by a threshold margin,
  intersects the viewport.\<close>

definition isInViewport ::
  "real \<Rightarrow> real \<Rightarrow> real \<Rightarrow> real \<Rightarrow> real \<Rightarrow> real \<Rightarrow> real \<Rightarrow> bool" where
  "isInViewport vw vh wd ht lft tp padding =
     (\<not> (lft - padding + (wd + padding * 2) \<le> 0 \<or> vw \<le> lft - padding \<or>
         tp - padding + (ht + padding * 2) \<le> 0 \<or> vh \<le> tp - padding))"

section \<open>src/Item/Item.ts\<close>

definition getTranslate :: "item \<Rightarrow> real \<times> real" where
  "getTranslate it =
     (case (translateX it, translateY it) of
        (Some x, Some y) \<Rightarrow> (x, y)
      | _ \<Rightarrow> dom_translate it)"

definition getClientRootPosition :: "'a world_scheme \<Rightarrow> real \<times> real" where
  "getClientRootPosition w =
     (rect_left (grid w) + borderLeft (grid w) - containerDiffX (item w),
      rect_top (grid w) + borderTop (grid w) - containerDiffY (item w))"

definition item_isInViewport :: "'a world_scheme \<Rightarrow> real \<Rightarrow> real \<Rightarrow> real \<Rightarrow> bool" where
  "item_isInViewport w x y viewportThreshold =
     (let (rootLeft, rootTop) = getClientRootPosition w
      in isInViewport (viewport_width w) (viewport_height w)
           (item_width (item w)) (item_height (item w))
           (rootLeft + item_marginLeft (item w) + x)
           (rootTop + item_marginTop (item w) + y)
           viewportThreshold)"

section \<open>src/Item/ItemVisibility.ts\<close>

text \<open>An item id as the decimal string that \<open>'visibility-' + item.id\<close> appends.\<close>

fun string_of_nat :: "nat \<Rightarrow> string" where
  "string_of_nat n =
     (if n < 10 then [char_of (48 + n)]
      else string_of_nat (n div 10) @ [char_of (48 + n mod 10)])"

definition childStyle :: "'a world_scheme \<Rightarrow> style_decl" where
  "childStyle w = (case child w of None \<Rightarrow> [] | Some s \<Rightarrow> s)"

text \<open>The utility \<open>setStyles(childElement, styles)\<close> on the handler's child element.\<close>

definition setChildStyles :: "style_decl \<Rightarrow> 'a world_scheme \<Rightarrow> 'a world_scheme" where
  "setChildStyles ts w = w\<lparr>child := map_option (setStyles_util ts) (child w)\<rparr>"

text \<open>A call \<open>callback(isInterrupted, item)\<close> of a completion callback.\<close>

definition invoke :: "callback \<Rightarrow> bool \<Rightarrow> vis \<Rightarrow> vis" where
  "invoke c interrupted v = v\<lparr>trace := trace v @ [Invoked c interrupted]\<rparr>"

definition removeCurrentStyles :: "vis \<Rightarrow> vis" where
  "removeCurrentStyles v =
     v\<lparr>child := map_option (fold (\<lambda>p. setProp p []) (currentStyleProps v)) (child v),
       currentStyleProps := []\<rparr>"

definition setStyles :: "style_decl option \<Rightarrow> vis \<Rightarrow> vis" where
  "setStyles styles v =
     (let v1 = removeCurrentStyles v
      in case styles of
           None \<Rightarrow> v1
         | Some ts \<Rightarrow>
             v1\<lparr>currentStyleProps := currentStyleProps v1 @ map fst ts,
                child := map_option (setStyles_util ts) (child v1)\<rparr>)"

definition finishShow :: "vis \<Rightarrow> vis" where
  "finishShow v =
     (if isHidden v then v
      else emitter_burst (queue v) False (v\<lparr>isShowing := False\<rparr>))"

definition finishHide :: "vis \<Rightarrow> vis" where
  "finishHide v =
     (if \<not> isHidden v then v
      else
        let v1 = v\<lparr>isHiding := False\<rparr>;
            v2 = v1\<lparr>trace := trace v1 @ [LayoutStopped]\<rparr>;
            v3 = v2\<lparr>display := ''none''\<rparr>
        in emitter_burst (queue v3) False v3)"

text \<open>The call \<open>onFinish && onFinish()\<close>: the handler is one of the two bound methods.\<close>

fun call_onFinish :: "handler option \<Rightarrow> vis \<Rightarrow> vis" where
  "call_onFinish None v = v"
| "call_onFinish (Some FinishShow) v = finishShow v"
| "call_onFinish (Some FinishHide) v = finishHide v"

definition startAnimation :: "bool \<Rightarrow> bool \<Rightarrow> handler option \<Rightarrow> vis \<Rightarrow> vis" where
  "startAnimation toVisible instant onFinish v =
     (if isDestroyed v then v
      else
        let s = grid_settings (grid v);
            targetStyles = (if toVisible then visibleStyles s else hiddenStyles s);
            duration = (if toVisible then showDuration s else hideDuration s);
            easing = (if toVisible then showEasing s else hideEasing s);
            isInstant = (instant \<or> duration \<le> 0)
        in case targetStyles of
             None \<Rightarrow> call_onFinish onFinish (animator_stop v)
           | Some ts \<Rightarrow>
               let v1 = cancelVisibilityTick (item_id (item v)) v
               in if isInstant
                  then call_onFinish onFinish (animator_stop (setChildStyles ts v1))
                  else
                    let v2 = v1\<lparr>animator_animation :=
                                   map_option (\<lambda>a. a\<lparr>an_onfinish := None\<rparr>) (animator_animation v1)\<rparr>;
                        v3 = v2\<lparr>grid := (grid v2)\<lparr>itemVisibilityNeedsDimensionRefresh := True\<rparr>\<rparr>
                    in addVisibilityTick (item_id (item v3))
                         \<lparr>te_toVisible = toVisible, te_targetStyles = ts,
                          te_duration = duration, te_easing = easing,
                          te_onFinish = onFinish, te_readPending = True,
                          te_currentStyles = None, te_tX = 0, te_tY = 0\<rparr> v3)"

text \<open>The two callbacks that \<open>_startAnimation\<close> registers. The guard "still in
  hiding/showing" is the same in both.\<close>

definition superseded :: "bool \<Rightarrow> vis \<Rightarrow> bool" where
  "superseded toVisible v =
     (isDestroyed v \<or> (if toVisible then \<not> isShowing v else \<not> isHiding v))"

definition visibilityRead :: "tick_entry \<Rightarrow> vis \<Rightarrow> tick_entry \<times> vis" where
  "visibilityRead e v =
     (if superseded (te_toVisible e) v then (e, v)
      else
        let (x, y) = getTranslate (item v);
            e1 = e\<lparr>te_currentStyles := Some (getCurrentStyles (childStyle v) (te_targetStyles e)),
                   te_tX := x, te_tY := y\<rparr>;
            g = grid v
        in if animationWindowing (grid_settings g) \<and> itemVisibilityNeedsDimensionRefresh g
           then (e1, v\<lparr>grid := g\<lparr>itemVisibilityNeedsDimensionRefresh := False,
                                  rect_left := dom_rect_left g, rect_top := dom_rect_top g,
                                  borderLeft := dom_borderLeft g, borderTop := dom_borderTop g\<rparr>\<rparr>)
           else (e1, v))"

definition visibilityWrite :: "tick_entry \<Rightarrow> vis \<Rightarrow> vis" where
  "visibilityWrite e v =
     (if superseded (te_toVisible e) v then v
      else if animationWindowing (grid_settings (grid v)) \<and>
              \<not> item_isInViewport v (te_tX e) (te_tY e) (VIEWPORT_THRESHOLD v) \<and>
              (\<not> item_isActive (item v) \<or>
               \<not> item_isInViewport v
                    (item_left (item v) + containerDiffX (item v))
                    (item_top (item v) + containerDiffY (item v))
                    (VIEWPORT_THRESHOLD v))
      then call_onFinish (te_onFinish e) (animator_stop (setChildStyles (te_targetStyles e) v))
      else case te_currentStyles e of
             None \<Rightarrow> v
           | Some cs \<Rightarrow>
               animator_start cs (te_targetStyles e) (te_duration e) (te_easing e)
                 (te_onFinish e) v)"

definition show_vis :: "bool \<Rightarrow> callback option \<Rightarrow> vis \<Rightarrow> vis" where
  "show_vis instant onFinish v =
     (if isDestroyed v then v
      else if \<not> isShowing v \<and> \<not> isHidden v
      then (case onFinish of None \<Rightarrow> v | Some c \<Rightarrow> invoke c False v)
      else if isShowing v \<and> \<not> instant
      then (case onFinish of None \<Rightarrow> v | Some c \<Rightarrow> emitter_on (queue v) c v)
      else
        let v1 = (if \<not> isShowing v
                  then
                    let b = emitter_burst (queue v) True v;
                        s = grid_settings (grid b);
                        c = b\<lparr>classes := addClass (itemVisibleClass s)
                                           (removeClass (itemHiddenClass s) (classes b))\<rparr>
                    in if \<not> isHiding c then c\<lparr>display := []\<rparr> else c
                  else v);
            v2 = (case onFinish of None \<Rightarrow> v1 | Some c \<Rightarrow> emitter_on (queue v1) c v1);
            v3 = v2\<lparr>isShowing := True, isHiding := False, isHidden := False\<rparr>
        in startAnimation True instant (Some FinishShow) v3)"

definition hide :: "bool \<Rightarrow> callback option \<Rightarrow> vis \<Rightarrow> vis" where
  "hide instant onFinish v =
     (if isDestroyed v then v
      else if \<not> isHiding v \<and> isHidden v
      then (case onFinish of None \<Rightarrow> v | Some c \<Rightarrow> invoke c False v)
      else if isHiding v \<and> \<not> instant
      then (case onFinish of None \<Rightarrow> v | Some c \<Rightarrow> emitter_on (queue v) c v)
      else
        let v1 = (if \<not> isHiding v
                  then
                    let b = emitter_burst (queue v) True v;
                        s = grid_settings (grid b)
                    in b\<lparr>classes := removeClass (itemVisibleClass s)
                                        (addClass (itemHiddenClass s) (classes b))\<rparr>
                  else v);
            v2 = (case onFinish of None \<Rightarrow> v1 | Some c \<Rightarrow> emitter_on (queue v1) c v1);
            v3 = v2\<lparr>isHiding := True, isHidden := True, isShowing := False\<rparr>
        in startAnimation False instant (Some FinishHide) v3)"

definition stop :: "bool \<Rightarrow> vis \<Rightarrow> vis" where
  "stop processCallbackQueue v =
     (if isDestroyed v then v
      else if \<not> isHiding v \<and> \<not> isShowing v then v
      else
        let v1 = cancelVisibilityTick (item_id (item v)) v;
            v2 = animator_stop v1
        in if processCallbackQueue then emitter_burst (queue v2) True v2 else v2)"

definition destroy :: "vis \<Rightarrow> vis" where
  "destroy v =
     (if isDestroyed v then v
      else
        let s = grid_settings (grid v);
            v1 = stop True v;
            v2 = emitter_clear (queue v1) v1;
            v3 = animator_destroy v2;
            v4 = removeCurrentStyles v3;
            v5 = v4\<lparr>classes := removeClass (itemHiddenClass s)
                                 (removeClass (itemVisibleClass s) (classes v4))\<rparr>;
            v6 = v5\<lparr>display := []\<rparr>
        in v6\<lparr>isHiding := False, isShowing := False, isHidden := True, isDestroyed := True\<rparr>)"

text \<open>The constructor: it throws when the item element has no child element.\<close>

definition ItemVisibility_new :: "world \<Rightarrow> error + vis" where
  "ItemVisibility_new w =
     (case child w of
        None \<Rightarrow> Inl NoChildElement
      | Some _ \<Rightarrow>
          let isActive = item_isActive (item w);
              s = grid_settings (grid w);
              v0 = world.extend w
                     (vis.fields (\<not> isActive) False False False []
                        (''visibility-'' @ string_of_nat (item_id (item w))) None False);
              v1 = v0\<lparr>display := (if isActive then [] else ''none'')\<rparr>;
              v2 = v1\<lparr>classes := addClass (if isActive then itemVisibleClass s
                                            else itemHiddenClass s) (classes v1)\<rparr>
          in Inr (setStyles (if isActive then visibleStyles s else hiddenStyles s) v2))"

section \<open>The scheduler and the animator running the handler's callbacks\<close>

text \<open>Modelled from the spec: a frame runs the pending read callback of a key, then
  its pending write callback, each once; a finished animation applies its target style
  and calls its completion callback unless that was nulled.\<close>

definition runRead :: "vis \<Rightarrow> vis" where
  "runRead v =
     (let i = item_id (item v)
      in case ticker v i of
           None \<Rightarrow> v
         | Some e \<Rightarrow>
             if te_readPending e
             then (let (e1, v1) = visibilityRead (e\<lparr>te_readPending := False\<rparr>) v
                   in v1\<lparr>ticker := (ticker v1)(i := Some e1)\<rparr>)
             else v)"

definition runWrite :: "vis \<Rightarrow> vis" where
  "runWrite v =
     (let i = item_id (item v)
      in case ticker v i of
           None \<Rightarrow> v
         | Some e \<Rightarrow> visibilityWrite e (v\<lparr>ticker := (ticker v)(i := None)\<rparr>))"

definition animationEnd :: "vis \<Rightarrow> vis" where
  "animationEnd v =
     (case animator_animation v of
        None \<Rightarrow> v
      | Some a \<Rightarrow>
          call_onFinish (an_onfinish a)
            (setChildStyles (an_to a) (v\<lparr>animator_animation := None\<rparr>)))"

text \<open>A call sequence on one handler.\<close>

datatype call =
    Show bool "callback option"
  | Hide bool "callback option"
  | Stop bool
  | Destroy
  | CallFinishShow
  | CallFinishHide
  | TickRead
  | TickWrite
  | AnimationEnd

fun step :: "vis \<Rightarrow> call \<Rightarrow> vis" where
  "step v (Show instant cb) = show_vis instant cb v"
| "step v (Hide instant cb) = hide instant cb v"
| "step v (Stop p) = stop p v"
| "step v Destroy = destroy v"
| "step v CallFinishShow = finishShow v"
| "step v CallFinishHide = finishHide v"
| "step v TickRead = runRead v"
| "step v TickWrite = runWrite v"
| "step v AnimationEnd = animationEnd v"

definition run :: "vis \<Rightarrow> call list \<Rightarrow> vis" where
  "run v cs = foldl step v cs"

section \<open>src/utils/debounce.ts\<close>

text \<open>
  The variables captured by the function that \<open>debounce(fn, durationMs)\<close> returns.
  \<open>tickDefined\<close> is false once \<open>tick\<close> has been set to undefined, \<open>registered\<close> says
  whether the scheduler holds \<open>tick\<close> under the instance's id for the read phase, and
  \<open>fnCalls\<close> counts the executions of \<open>fn\<close>, which is opaque. The count-down of
  \<open>timer\<close> is computed over reals: the rounding of the source's doubles is not modelled,
  and nothing proved below depends on the arithmetic of the count-down.
\<close>

record debounce =
  durationMs :: real
  timer :: real
  lastTime :: real
  isCanceled :: bool
  tickDefined :: bool
  registered :: bool
  fnCalls :: nat

definition debounce :: "real \<Rightarrow> debounce" where
  "debounce d =
     \<lparr>durationMs = d, timer = 0, lastTime = 0, isCanceled = False, tickDefined = True,
      registered = False, fnCalls = 0\<rparr>"

definition tick :: "real \<Rightarrow> debounce \<Rightarrow> debounce" where
  "tick time d =
     (if isCanceled d then d
      else
        let d1 = (if lastTime d \<noteq> 0 then d\<lparr>timer := timer d - (time - lastTime d)\<rparr> else d);
            d2 = d1\<lparr>lastTime := time\<rparr>
        in if timer d2 > 0
           then (if tickDefined d2 then d2\<lparr>registered := True\<rparr> else d2)
           else d2\<lparr>timer := 0, lastTime := 0, fnCalls := Suc (fnCalls d2)\<rparr>)"

definition debouncedFn :: "bool \<Rightarrow> debounce \<Rightarrow> debounce" where
  "debouncedFn cancel d =
     (if isCanceled d then d
      else if durationMs d \<le> 0
      then (if \<not> cancel then d\<lparr>fnCalls := Suc (fnCalls d)\<rparr> else d)
      else if cancel
      then d\<lparr>isCanceled := True, timer := 0, lastTime := 0, tickDefined := False,
             registered := False\<rparr>
      else if timer d \<le> 0
      then (let d1 = d\<lparr>timer := durationMs d\<rparr>
            in if tickDefined d1 then tick 0 d1 else d1)
      else d\<lparr>timer := durationMs d\<rparr>)"

text \<open>Modelled from the spec: a frame of the scheduler runs a registered one-shot
  callback once, with the frame's timestamp, and forgets it.\<close>

definition frame :: "real \<Rightarrow> debounce \<Rightarrow> debounce" where
  "frame time d = (if registered d then tick time (d\<lparr>registered := False\<rparr>) else d)"

text \<open>A call sequence on one debounced function: invocations, frames of the scheduler,
  and calls of \<open>tick\<close> that bypass the registration (a stale tick).\<close>

datatype dcall = Invoke bool | Frame real | StaleTick real

fun dstep :: "debounce \<Rightarrow> dcall \<Rightarrow> debounce" where
  "dstep d (Invoke cancel) = debouncedFn cancel d"
| "dstep d (Frame time) = frame time d"
| "dstep d (StaleTick time) = tick time d"

definition drun :: "debounce \<Rightarrow> dcall list \<Rightarrow> debounce" where
  "drun d cs = foldl dstep d cs"

section \<open>Concrete handlers\<close>

definition demo_settings :: settings where
  "demo_settings =
     \<lparr>itemVisibleClass = ''shown'', itemHiddenClass = ''hidden'',
      visibleStyles = Some [(''opacity'', ''1'')], hiddenStyles = Some [(''opacity'', ''0'')],
      showDuration = 300, hideDuration = 300, showEasing = ''ease'', hideEasing = ''ease'',
      animationWindowing = True\<rparr>"

definition demo_grid :: grid where
  "demo_grid =
     \<lparr>grid_settings = demo_settings, rect_left = 0, rect_top = 0, borderLeft = 0,
      borderTop = 0, itemVisibilityNeedsDimensionRefresh = False, dom_rect_left = 0,
      dom_rect_top = 0, dom_borderLeft = 0, dom_borderTop = 0\<rparr>"

definition demo_item :: item where
  "demo_item =
     \<lparr>item_id = 7, item_isActive = False, item_left = 0, item_top = 0,
      item_width = 50, item_height = 50, item_marginLeft = 0, item_marginTop = 0,
      containerDiffX = 0, containerDiffY = 0, translateX = Some 10, translateY = Some 10,
      dom_translate = (0, 0)\<rparr>"

definition demo_world :: world where
  "demo_world =
     \<lparr>item = demo_item, grid = demo_grid, display = [], classes = [''item''],
      child = Some [], emitter = (\<lambda>_. []), ticker = (\<lambda>_. None), trace = [],
      viewport_width = 800, viewport_height = 600, VIEWPORT_THRESHOLD = 100\<rparr>"

text \<open>The handler constructed for an inactive item (hidden), for an active one
  (visible), and the hidden one after \<open>show(false, cb1)\<close> (showing, cb1 pending).\<close>

definition demo_hidden :: vis where
  "demo_hidden =
     world.extend
       (demo_world\<lparr>display := ''none'', classes := [''item'', ''hidden''],
                    child := Some [(''opacity'', ''0'')]\<rparr>)
       (vis.fields True False False False [''opacity''] ''visibility-7'' None False)"

definition demo_visible :: vis where
  "demo_visible =
     world.extend
       (demo_world\<lparr>item := demo_item\<lparr>item_isActive := True\<rparr>,
                    classes := [''item'', ''shown''],
                    child := Some [(''opacity'', ''1'')]\<rparr>)
       (vis.fields False False False False [''opacity''] ''visibility-7'' None False)"

definition demo_showing :: vis where
  "demo_showing = show_vis False (Some 1) demo_hidden"

text \<open>A handler in the showing state whose item is active and laid out far outside the
  viewport while its current translate position is inside it, with the registration
  its read callback leaves behind; and a handler whose visible style set is empty.\<close>

definition demo_moving :: vis where
  "demo_moving =
     demo_showing\<lparr>item := demo_item\<lparr>item_isActive := True, item_left := 5000,
                                      item_top := 5000\<rparr>\<rparr>"

definition demo_entry :: tick_entry where
  "demo_entry =
     \<lparr>te_toVisible = True, te_targetStyles = [(''opacity'', ''1'')], te_duration = 300,
      te_easing = ''ease'', te_onFinish = Some FinishShow, te_readPending = False,
      te_currentStyles = Some [(''opacity'', ''0'')], te_tX = 10, te_tY = 10\<rparr>"

definition demo_empty_styles :: vis where
  "demo_empty_styles =
     demo_hidden\<lparr>grid := demo_grid\<lparr>grid_settings := demo_settings\<lparr>visibleStyles := Some []\<rparr>\<rparr>,
                  isHidden := False, isShowing := True\<rparr>"

definition demo_no_styles :: vis where
  "demo_no_styles =
     demo_showing\<lparr>grid := demo_grid\<lparr>grid_settings := demo_settings\<lparr>visibleStyles := None\<rparr>\<rparr>\<rparr>"

section \<open>Invariant of the state flags\<close>

text \<open>A hiding handler is hidden and not showing, and a showing handler is not hidden.\<close>

definition state_inv :: "vis \<Rightarrow> bool" where
  "state_inv v =
     ((if isHiding v then isHidden v \<and> \<not> isShowing v else True) \<and>
      (if isShowing v then \<not> isHidden v else True))"

text \<open>A destroyed handler whose flags say showing: the state left when a callback run by
  the burst of \<open>show\<close> destroys the handler and \<open>show\<close> then writes its flags.\<close>

definition demo_destroyed_showing :: vis where
  "demo_destroyed_showing = (destroy demo_showing)\<lparr>isShowing := True, isHidden := False\<rparr>"

text \<open>The calls of the public surface.\<close>

fun public_call :: "call \<Rightarrow> bool" where
  "public_call (Show _ _) = True"
| "public_call (Hide _ _) = True"
| "public_call (Stop _) = True"
| "public_call Destroy = True"
| "public_call _ = False"

lemmas world_ops = emitter_on_def emitter_burst_def emitter_clear_def addVisibilityTick_def
  cancelVisibilityTick_def animator_stop_def animator_start_def animator_destroy_def
  setChildStyles_def invoke_def

lemmas demo_defs = demo_world_def demo_item_def demo_grid_def demo_settings_def
  world.extend_def vis.fields_def

lemma string_of_nat_7: "string_of_nat 7 = ''7''"
  by code_simp

lemma new_hidden: "ItemVisibility_new demo_world = Inr demo_hidden"
  by (simp add: ItemVisibility_new_def demo_hidden_def demo_defs Let_def setStyles_def
      removeCurrentStyles_def addClass_def string_of_nat_7 del: string_of_nat.simps)

lemma demo_visible_flags:
  "\<not> isDestroyed demo_visible" "\<not> isShowing demo_visible" "\<not> isHidden demo_visible"
  by (simp_all add: demo_visible_def demo_defs)

lemma demo_showing_flags:
  "\<not> isDestroyed demo_showing" "isShowing demo_showing" "\<not> isHidden demo_showing"
  "\<not> isHiding demo_showing"
  by (simp_all add: demo_showing_def demo_hidden_def demo_defs show_vis_def Let_def world_ops
      startAnimation_def)

lemma state_inv_finishShow: "state_inv v \<Longrightarrow> state_inv (finishShow v)"
  by (auto simp: state_inv_def finishShow_def world_ops)

lemma state_inv_finishHide: "state_inv v \<Longrightarrow> state_inv (finishHide v)"
  by (auto simp: state_inv_def finishHide_def world_ops Let_def)

lemma state_inv_call_onFinish: "state_inv v \<Longrightarrow> state_inv (call_onFinish h v)"
  by (cases "(h, v)" rule: call_onFinish.cases)
     (auto simp: state_inv_finishShow state_inv_finishHide)

lemma state_inv_frame:
  "state_inv (animator_stop v) = state_inv v"
  "state_inv (setChildStyles ts v) = state_inv v"
  "state_inv (cancelVisibilityTick i v) = state_inv v"
  "state_inv (addVisibilityTick i e v) = state_inv v"
  "state_inv (emitter_burst k b v) = state_inv v"
  "state_inv (emitter_on k c v) = state_inv v"
  "state_inv (emitter_clear k v) = state_inv v"
  "state_inv (animator_start cs ts d ea h v) = state_inv v"
  "state_inv (invoke c b v) = state_inv v"
  "state_inv (v\<lparr>grid := g\<rparr>) = state_inv v"
  "state_inv (v\<lparr>animator_animation := a\<rparr>) = state_inv v"
  "state_inv (v\<lparr>ticker := t\<rparr>) = state_inv v"
  "state_inv (v\<lparr>classes := cl\<rparr>) = state_inv v"
  "state_inv (v\<lparr>display := dp\<rparr>) = state_inv v"
  "state_inv (v\<lparr>child := ch\<rparr>) = state_inv v"
  "state_inv (v\<lparr>trace := tr\<rparr>) = state_inv v"
  "state_inv (v\<lparr>currentStyleProps := ps\<rparr>) = state_inv v"
  by (simp_all add: state_inv_def world_ops)

lemma state_inv_startAnimation: "state_inv v \<Longrightarrow> state_inv (startAnimation tv i h v)"
  unfolding startAnimation_def Let_def
  by (simp split: option.splits add: state_inv_frame state_inv_call_onFinish)

lemma state_inv_show: "state_inv v \<Longrightarrow> state_inv (show_vis i cb v)"
  unfolding show_vis_def Let_def
  apply (simp split: option.splits add: state_inv_frame)
  apply (intro conjI impI allI state_inv_startAnimation)
  apply (auto simp: state_inv_def world_ops)
  done

lemma state_inv_hide: "state_inv v \<Longrightarrow> state_inv (hide i cb v)"
  unfolding hide_def Let_def
  apply (simp split: option.splits add: state_inv_frame)
  apply (intro conjI impI allI state_inv_startAnimation)
  apply (auto simp: state_inv_def world_ops)
  done

lemma state_inv_stop: "state_inv v \<Longrightarrow> state_inv (stop p v)"
  by (simp add: stop_def Let_def state_inv_frame)

lemma state_inv_destroy: "state_inv v \<Longrightarrow> state_inv (destroy v)"
  by (simp add: destroy_def Let_def state_inv_def)

lemma state_inv_runRead: "state_inv v \<Longrightarrow> state_inv (runRead v)"
  by (auto simp: runRead_def visibilityRead_def Let_def state_inv_def
      split: option.splits prod.splits)

lemma state_inv_visibilityWrite: "state_inv v \<Longrightarrow> state_inv (visibilityWrite e v)"
  by (simp add: visibilityWrite_def state_inv_frame state_inv_call_onFinish
      split: option.splits)

lemma state_inv_runWrite: "state_inv v \<Longrightarrow> state_inv (runWrite v)"
  unfolding runWrite_def Let_def
  apply (simp split: option.splits)
  apply (intro allI impI state_inv_visibilityWrite)
  apply (simp add: state_inv_frame)
  done

lemma state_inv_animationEnd: "state_inv v \<Longrightarrow> state_inv (animationEnd v)"
  unfolding animationEnd_def
  apply (simp split: option.splits)
  apply (intro allI impI state_inv_call_onFinish)
  apply (simp add: state_inv_frame)
  done

lemma state_inv_step: "state_inv v \<Longrightarrow> state_inv (step v c)"
  by (cases c)
     (simp_all add: state_inv_show state_inv_hide state_inv_stop state_inv_destroy
        state_inv_finishShow state_inv_finishHide state_inv_runRead state_inv_runWrite
        state_inv_animationEnd)

lemma state_inv_run: "state_inv v \<Longrightarrow> state_inv (run v cs)"
  unfolding run_def by (induction cs arbitrary: v) (simp_all add: state_inv_step)

lemma state_inv_new: "ItemVisibility_new w = Inr v \<Longrightarrow> state_inv v"
  by (auto simp: ItemVisibility_new_def Let_def setStyles_def removeCurrentStyles_def
      state_inv_def world.extend_def vis.fields_def split: option.splits)

lemma demo_showing_queue:
  "emitter demo_showing (queue demo_showing) = [1]" "trace demo_showing = []"
  "item_id (item demo_showing) = 7" "queue demo_showing = ''visibility-7''"
  by (simp_all add: demo_showing_def demo_hidden_def demo_defs show_vis_def Let_def world_ops
      startAnimation_def)

lemma demo_showing_vp:
  "animationWindowing (grid_settings (grid demo_showing))"
  "\<not> item_isActive (item demo_showing)"
  "VIEWPORT_THRESHOLD demo_showing = 100"
  "\<not> item_isInViewport demo_showing 5000 5000 100"
  by (simp_all add: item_isInViewport_def getClientRootPosition_def isInViewport_def
      demo_showing_def demo_hidden_def demo_defs show_vis_def Let_def world_ops
      startAnimation_def)

lemma destroyed_public_noop: "isDestroyed v \<Longrightarrow> public_call c \<Longrightarrow> step v c = v"
  by (cases c) (simp_all add: show_vis_def hide_def stop_def destroy_def)

lemma destroyed_public_run: "isDestroyed v \<Longrightarrow> list_all public_call cs \<Longrightarrow> run v cs = v"
  unfolding run_def by (induction cs) (simp_all add: destroyed_public_noop)

lemma destroy_flags:
  "\<not> isDestroyed v \<Longrightarrow>
   isHidden (destroy v) \<and> \<not> isHiding (destroy v) \<and> \<not> isShowing (destroy v)"
  by (simp add: destroy_def Let_def)

lemma destroy_destroyed: "isDestroyed (destroy v)"
  by (simp add: destroy_def Let_def)

subsection \<open>The debounced function once canceled\<close>

lemma canceled_inert:
  "isCanceled d \<Longrightarrow> isCanceled (dstep d c) \<and> fnCalls (dstep d c) = fnCalls d"
  by (cases c) (simp_all add: debouncedFn_def frame_def tick_def)

lemma canceled_inert_run:
  "isCanceled d \<Longrightarrow> isCanceled (drun d cs) \<and> fnCalls (drun d cs) = fnCalls d"
  unfolding drun_def
proof (induction cs arbitrary: d)
  case Nil
  then show ?case by simp
next
  case (Cons c cs)
  from canceled_inert [OF Cons.prems, of c] Cons.IH [of "dstep d c"]
  show ?case by simp
qed

lemma cancel_positive_duration:
  "0 < durationMs d \<Longrightarrow>
   isCanceled (debouncedFn True d) \<and> fnCalls (debouncedFn True d) = fnCalls d"
  by (simp add: debouncedFn_def)

text \<open>With a positive delay the cancel invocation is final: whatever is called after
  it, invocations, frames or stale ticks, \<open>fn\<close> is not executed again.\<close>

lemma debounce_cancel_positive_duration:
  "0 < durationMs d \<Longrightarrow> fnCalls (drun (debouncedFn True d) cs) = fnCalls d"
  by (simp add: canceled_inert_run cancel_positive_duration)

section \<open>The claims\<close>

text \<open>
  C1. For every handler made by the constructor and every sequence of calls to show,
  hide, stop, destroy, \<open>_finishShow\<close> and \<open>_finishHide\<close> (and also of scheduler
  callbacks and animation ends), the flags \<open>_isHiding\<close> and \<open>_isShowing\<close> are never
  both true.
\<close>

theorem hiding_showing_exclusive:
  "ItemVisibility_new w = Inr v \<Longrightarrow> \<not> (isHiding (run v cs) \<and> isShowing (run v cs))"
  using state_inv_run [OF state_inv_new, of w v cs] by (auto simp: state_inv_def)

theorem hiding_showing_exclusive_witness:
  "ItemVisibility_new demo_world = Inr demo_hidden \<and>
   \<not> (isHiding (run demo_hidden [Show False (Some 1), Hide False (Some 2)]) \<and>
      isShowing (run demo_hidden [Show False (Some 1), Hide False (Some 2)]))"
  using hiding_showing_exclusive
          [of demo_world demo_hidden "[Show False (Some 1), Hide False (Some 2)]"]
        new_hidden
  by simp

text \<open>
  C2 (as amended). show(true, cb2) on a handler that is not destroyed and is showing
  completes the show before it returns: every pending callback of the queue, cb1 among
  them, and then cb2 is called with interrupted = false, in queue order; the queue is
  left empty, so no pending callback is ever called with interrupted = true.
\<close>

theorem show_instant_while_showing:
  "\<not> isDestroyed v \<Longrightarrow> isShowing v \<Longrightarrow>
   trace (show_vis True (Some cb2) v) =
     trace v @ map (\<lambda>c. Invoked c False) (emitter v (queue v) @ [cb2]) \<and>
   emitter (show_vis True (Some cb2) v) (queue v) = [] \<and>
   \<not> isShowing (show_vis True (Some cb2) v) \<and>
   \<not> isHidden (show_vis True (Some cb2) v)"
  by (auto simp: show_vis_def Let_def startAnimation_def finishShow_def world_ops
      split: option.splits)

theorem show_instant_while_showing_witness:
  "\<not> isDestroyed demo_showing \<and> isShowing demo_showing \<and>
   trace (show_vis True (Some 2) demo_showing) = [Invoked 1 False, Invoked 2 False] \<and>
   emitter (show_vis True (Some 2) demo_showing) ''visibility-7'' = [] \<and>
   \<not> isShowing (show_vis True (Some 2) demo_showing) \<and>
   \<not> isHidden (show_vis True (Some 2) demo_showing)"
  using show_instant_while_showing [of demo_showing 2] demo_showing_flags demo_showing_queue
  by simp

text \<open>
  C2 as stated fails: with cb1 = 1 pending on a showing handler, show(true, 2) calls
  callback 1 with interrupted = false, never with true.
\<close>

theorem show_instant_while_showing_counterexample:
  "\<not> isDestroyed demo_showing \<and> isShowing demo_showing \<and>
   emitter demo_showing (queue demo_showing) = [1] \<and>
   trace demo_showing = [] \<and>
   trace (show_vis True (Some 2) demo_showing) = [Invoked 1 False, Invoked 2 False] \<and>
   emitter (show_vis True (Some 2) demo_showing) (queue demo_showing) = []"
  by code_simp

text \<open>
  C3. show(instant, onFinish) on a handler that is not destroyed and is visible
  (neither showing nor hidden) calls onFinish with interrupted = false before it
  returns and changes nothing else: no flag, no queue, no registration. Without a
  callback it changes nothing at all.
\<close>

theorem show_while_visible:
  "\<not> isDestroyed v \<Longrightarrow> \<not> isShowing v \<Longrightarrow> \<not> isHidden v \<Longrightarrow>
   show_vis instant (Some cb) v = v\<lparr>trace := trace v @ [Invoked cb False]\<rparr> \<and>
   show_vis instant None v = v"
  by (simp add: show_vis_def invoke_def)

theorem show_while_visible_witness:
  "\<not> isDestroyed demo_visible \<and> \<not> isShowing demo_visible \<and> \<not> isHidden demo_visible \<and>
   show_vis False (Some 5) demo_visible =
     demo_visible\<lparr>trace := trace demo_visible @ [Invoked 5 False]\<rparr> \<and>
   show_vis False None demo_visible = demo_visible"
  using show_while_visible [of demo_visible False 5] demo_visible_flags by simp

text \<open>
  C4. show(false, onFinish) on a handler that is not destroyed and is showing only
  appends onFinish to the completion queue: flags, classes, display, styles, scheduler
  registrations and animator are what they were.
\<close>

theorem show_while_showing_enqueues:
  "\<not> isDestroyed v \<Longrightarrow> isShowing v \<Longrightarrow>
   show_vis False (Some cb) v =
     v\<lparr>emitter := (emitter v)(queue v := emitter v (queue v) @ [cb])\<rparr> \<and>
   show_vis False None v = v"
  by (simp add: show_vis_def emitter_on_def)

theorem show_while_showing_enqueues_witness:
  "\<not> isDestroyed demo_showing \<and> isShowing demo_showing \<and>
   show_vis False (Some 2) demo_showing =
     demo_showing\<lparr>emitter := (emitter demo_showing)
        (queue demo_showing := emitter demo_showing (queue demo_showing) @ [2])\<rparr> \<and>
   show_vis False None demo_showing = demo_showing"
  using show_while_showing_enqueues [of demo_showing 2] demo_showing_flags by simp

text \<open>
  C5. stop(processQueue) on a handler that is not destroyed changes nothing when the
  handler is neither showing nor hiding; otherwise it removes the scheduler
  registration keyed by the item's id, stops the animator and, exactly when
  processQueue is true, bursts the completion queue with interrupted = true.
\<close>

theorem stop_effect:
  "\<not> isDestroyed v \<Longrightarrow>
   (\<not> isHiding v \<and> \<not> isShowing v \<longrightarrow> stop p v = v) \<and>
   (isHiding v \<or> isShowing v \<longrightarrow>
      stop p v =
        v\<lparr>ticker := (ticker v)(item_id (item v) := None),
          animator_animation := None,
          emitter := (if p then (emitter v)(queue v := []) else emitter v),
          trace := (if p then trace v @ map (\<lambda>c. Invoked c True) (emitter v (queue v))
                    else trace v)\<rparr>)"
  by (auto simp: stop_def Let_def world_ops)

theorem stop_effect_witness:
  "\<not> isDestroyed demo_visible \<and> \<not> isHiding demo_visible \<and> \<not> isShowing demo_visible \<and>
   stop True demo_visible = demo_visible \<and>
   \<not> isDestroyed demo_showing \<and> isShowing demo_showing \<and>
   stop True demo_showing =
     demo_showing\<lparr>ticker := (ticker demo_showing)(7 := None),
       animator_animation := None,
       emitter := (emitter demo_showing)(''visibility-7'' := []),
       trace := [Invoked 1 True]\<rparr> \<and>
   stop False demo_showing =
     demo_showing\<lparr>ticker := (ticker demo_showing)(7 := None),
       animator_animation := None, emitter := emitter demo_showing, trace := []\<rparr>"
  using stop_effect [of demo_visible True] stop_effect [of demo_showing True]
    stop_effect [of demo_showing False] demo_visible_flags demo_showing_flags
    demo_showing_queue
  by (simp add: demo_visible_def demo_defs)

text \<open>
  C6. destroy() on a handler that is not yet destroyed leaves the flags at
  hidden = true, hiding = false, showing = false and destroyed = true. After destroy,
  and on any destroyed handler whatever its other fields, every sequence of show, hide,
  stop and destroy calls returns the state it was given. Nothing is assumed about how
  the state was reached. No method of the handler has an error path; only the
  constructor throws. (A show or hide that was already running when the handler was
  destroyed is not a later call, and the statement says nothing about it.)
\<close>

theorem destroy_terminal:
  "list_all public_call after \<Longrightarrow>
   (\<not> isDestroyed v \<longrightarrow>
      isHidden (destroy v) \<and> \<not> isHiding (destroy v) \<and> \<not> isShowing (destroy v)) \<and>
   isDestroyed (destroy v) \<and>
   run (destroy v) after = destroy v \<and>
   (isDestroyed u \<longrightarrow> run u after = u)"
  by (simp add: destroy_flags destroy_destroyed destroyed_public_run)

theorem destroy_terminal_witness:
  "list_all public_call [Show True (Some 3), Hide False None, Stop True, Destroy] \<and>
   \<not> isDestroyed demo_showing \<and>
   isHidden (destroy demo_showing) \<and> \<not> isHiding (destroy demo_showing) \<and>
   \<not> isShowing (destroy demo_showing) \<and> isDestroyed (destroy demo_showing) \<and>
   run (destroy demo_showing) [Show True (Some 3), Hide False None, Stop True, Destroy] =
     destroy demo_showing \<and>
   isDestroyed demo_destroyed_showing \<and> isShowing demo_destroyed_showing \<and>
   run demo_destroyed_showing [Show True (Some 3), Hide False None, Stop True, Destroy] =
     demo_destroyed_showing"
proof -
  have h: "list_all public_call [Show True (Some 3), Hide False None, Stop True, Destroy]"
    by simp
  have d: "isDestroyed demo_destroyed_showing" "isShowing demo_destroyed_showing"
    by (simp_all add: demo_destroyed_showing_def destroy_destroyed)
  show ?thesis
    using destroy_terminal [OF h, of demo_showing demo_destroyed_showing] h d
      demo_showing_flags(1)
    by blast
qed

text \<open>
  C7 (as amended). In the write callback of a transition that is not instant, when the
  handler is still in that transition, animation windowing is enabled, the translate
  position captured by the read callback is outside the viewport widened by the
  threshold, and the item is either inactive or has its layout position (left and top
  plus the container offset) outside it too, the target styles are applied directly,
  the animator is stopped and the finish handler is called; no interpolation starts.
  The test is the same for show and for hide.
\<close>

theorem windowing_skip:
  "\<not> superseded (te_toVisible e) v \<Longrightarrow>
   animationWindowing (grid_settings (grid v)) \<Longrightarrow>
   \<not> item_isInViewport v (te_tX e) (te_tY e) (VIEWPORT_THRESHOLD v) \<Longrightarrow>
   \<not> item_isActive (item v) \<or>
   \<not> item_isInViewport v (item_left (item v) + containerDiffX (item v))
        (item_top (item v) + containerDiffY (item v)) (VIEWPORT_THRESHOLD v) \<Longrightarrow>
   visibilityWrite e v =
     call_onFinish (te_onFinish e)
       (v\<lparr>child := map_option (setStyles_util (te_targetStyles e)) (child v),
          animator_animation := None\<rparr>) \<and>
   animator_animation (visibilityWrite e v) = None \<and>
   child (visibilityWrite e v) = map_option (setStyles_util (te_targetStyles e)) (child v)"
  by (cases "(te_onFinish e, v)" rule: call_onFinish.cases)
     (auto simp: visibilityWrite_def Let_def world_ops finishShow_def finishHide_def)

theorem windowing_skip_witness:
  "\<not> superseded True demo_showing \<and>
   animationWindowing (grid_settings (grid demo_showing)) \<and>
   \<not> item_isInViewport demo_showing 5000 5000 100 \<and>
   \<not> item_isActive (item demo_showing) \<and>
   visibilityWrite (demo_entry\<lparr>te_tX := 5000, te_tY := 5000\<rparr>) demo_showing =
     finishShow
       (demo_showing\<lparr>child := map_option (setStyles_util [(''opacity'', ''1'')])
                                  (child demo_showing),
          animator_animation := None\<rparr>) \<and>
   animator_animation
     (visibilityWrite (demo_entry\<lparr>te_tX := 5000, te_tY := 5000\<rparr>) demo_showing) = None"
proof -
  have es:
    "te_toVisible (demo_entry\<lparr>te_tX := 5000, te_tY := 5000\<rparr>) = True"
    "te_tX (demo_entry\<lparr>te_tX := 5000, te_tY := 5000\<rparr>) = 5000"
    "te_tY (demo_entry\<lparr>te_tX := 5000, te_tY := 5000\<rparr>) = 5000"
    "te_onFinish (demo_entry\<lparr>te_tX := 5000, te_tY := 5000\<rparr>) = Some FinishShow"
    "te_targetStyles (demo_entry\<lparr>te_tX := 5000, te_tY := 5000\<rparr>) = [(''opacity'', ''1'')]"
    by (simp_all add: demo_entry_def)
  have h1: "\<not> superseded True demo_showing"
    by (simp add: superseded_def demo_showing_flags)
  have h2: "animationWindowing (grid_settings (grid demo_showing))"
    by (rule demo_showing_vp)
  have h3: "\<not> item_isInViewport demo_showing 5000 5000 (VIEWPORT_THRESHOLD demo_showing)"
    by (simp add: demo_showing_vp)
  have h4: "\<not> item_isActive (item demo_showing)"
    by (rule demo_showing_vp)
  note t = windowing_skip [of "demo_entry\<lparr>te_tX := 5000, te_tY := 5000\<rparr>" demo_showing,
      simplified es call_onFinish.simps, OF h1 h2 h3 disjI1 [OF h4]]
  show ?thesis
    using h1 h2 h4 demo_showing_vp(4) t by blast
qed

text \<open>
  C7 as stated fails for show: the handler is showing, windowing is enabled and the
  item's layout position is far outside the viewport, but the translate position that
  the read callback captured is inside it, and the write callback starts the
  interpolation instead of finishing.
\<close>

theorem windowing_skip_counterexample:
  "\<not> isDestroyed demo_moving \<and> isShowing demo_moving \<and>
   animationWindowing (grid_settings (grid demo_moving)) \<and>
   ticker (runRead demo_moving) 7 = Some demo_entry \<and>
   te_toVisible demo_entry \<and>
   item_isActive (item (runRead demo_moving)) \<and>
   \<not> item_isInViewport (runRead demo_moving)
        (item_left (item (runRead demo_moving)) + containerDiffX (item (runRead demo_moving)))
        (item_top (item (runRead demo_moving)) + containerDiffY (item (runRead demo_moving)))
        (VIEWPORT_THRESHOLD (runRead demo_moving)) \<and>
   animator_animation (visibilityWrite demo_entry (runRead demo_moving)) =
     Some \<lparr>an_from = [(''opacity'', ''0'')], an_to = [(''opacity'', ''1'')],
           an_duration = 300, an_easing = ''ease'', an_onfinish = Some FinishShow\<rparr> \<and>
   child (visibilityWrite demo_entry (runRead demo_moving)) = Some [(''opacity'', ''0'')] \<and>
   isShowing (visibilityWrite demo_entry (runRead demo_moving)) \<and>
   trace (visibilityWrite demo_entry (runRead demo_moving)) = []"
  by code_simp

text \<open>
  C8. After an invocation with the cancel argument the debounced function should never
  execute \<open>fn\<close> again. With a delay of zero the code returns from that invocation
  before it records the cancellation, so the next plain invocation executes \<open>fn\<close>.
\<close>

theorem debounce_cancel_zero_duration:
  "fnCalls (drun (debounce 0) [Invoke True]) = 0 \<and>
   \<not> isCanceled (drun (debounce 0) [Invoke True]) \<and>
   fnCalls (drun (debounce 0) [Invoke True, Invoke False]) = 1"
  by (simp add: drun_def debounce_def debouncedFn_def)

text \<open>
  C9 (as amended). When \<open>_startAnimation\<close> is called on a handler that is not
  destroyed and the target style set (visibleStyles for show, hiddenStyles for hide) is
  undefined, the animator is stopped and the finish handler is called at once; the
  scheduler's registrations and the child element's styles are left as they were.
\<close>

theorem startAnimation_no_target:
  "\<not> isDestroyed v \<Longrightarrow>
   (if toVisible then visibleStyles (grid_settings (grid v))
    else hiddenStyles (grid_settings (grid v))) = None \<Longrightarrow>
   startAnimation toVisible instant onFinish v =
     call_onFinish onFinish (v\<lparr>animator_animation := None\<rparr>) \<and>
   ticker (startAnimation toVisible instant onFinish v) = ticker v \<and>
   child (startAnimation toVisible instant onFinish v) = child v"
  by (cases "(onFinish, v)" rule: call_onFinish.cases)
     (auto simp: startAnimation_def Let_def world_ops finishShow_def finishHide_def)

theorem startAnimation_no_target_witness:
  "\<not> isDestroyed demo_no_styles \<and>
   visibleStyles (grid_settings (grid demo_no_styles)) = None \<and>
   startAnimation True False (Some FinishShow) demo_no_styles =
     finishShow (demo_no_styles\<lparr>animator_animation := None\<rparr>) \<and>
   ticker (startAnimation True False (Some FinishShow) demo_no_styles) =
     ticker demo_no_styles \<and>
   child (startAnimation True False (Some FinishShow) demo_no_styles) =
     child demo_no_styles"
proof -
  have h1: "\<not> isDestroyed demo_no_styles"
    by (simp add: demo_no_styles_def demo_showing_flags)
  have h2: "visibleStyles (grid_settings (grid demo_no_styles)) = None"
    by (simp add: demo_no_styles_def demo_defs)
  note t = startAnimation_no_target
    [of demo_no_styles True False "Some FinishShow", simplified, OF h1 h2]
  show ?thesis
    using h1 h2 t by blast
qed

text \<open>
  C9 as stated fails for an empty style set: an empty object is not undefined, so a
  show that is not instant registers a read/write pair with the scheduler and the
  finish handler is not called.
\<close>

theorem startAnimation_no_target_counterexample:
  "\<not> isDestroyed demo_empty_styles \<and>
   visibleStyles (grid_settings (grid demo_empty_styles)) = Some [] \<and>
   isShowing demo_empty_styles \<and>
   ticker demo_empty_styles 7 = None \<and>
   ticker (startAnimation True False (Some FinishShow) demo_empty_styles) 7 =
     Some \<lparr>te_toVisible = True, te_targetStyles = [], te_duration = 300,
           te_easing = ''ease'', te_onFinish = Some FinishShow, te_readPending = True,
           te_currentStyles = None, te_tX = 0, te_tY = 0\<rparr> \<and>
   isShowing (startAnimation True False (Some FinishShow) demo_empty_styles) \<and>
   trace (startAnimation True False (Some FinishShow) demo_empty_styles) = []"
  by (simp add: demo_empty_styles_def demo_hidden_def demo_defs startAnimation_def Let_def
      world_ops)

text \<open>
  C10. \<open>_finishShow\<close> changes nothing (no flag, no queue burst) whenever the handler is
  hidden, and \<open>_finishHide\<close> changes nothing whenever it is not hidden: a finish signal
  of a transition that an opposite request has preempted cannot flip the state.
\<close>

theorem stale_finish_noop:
  "(isHidden v \<longrightarrow> finishShow v = v) \<and> (\<not> isHidden u \<longrightarrow> finishHide u = u)"
  by (simp add: finishShow_def finishHide_def)

theorem stale_finish_noop_witness:
  "isHidden demo_hidden \<and> finishShow demo_hidden = demo_hidden \<and>
   \<not> isHidden demo_showing \<and> finishHide demo_showing = demo_showing"
  using stale_finish_noop [of demo_hidden demo_showing] demo_showing_flags
  by (simp add: demo_hidden_def demo_defs)

end
